theory Spec2Isabelle
  imports Complex_Main
begin

section \<open>The pptx2md data model (src/pptx2md/types.py)\<close>

text \<open>
  The module declares pydantic models only: classes deriving from \<open>BaseModel\<close> whose
  bodies list annotated fields, some with a default.  A class becomes a record with the
  fields of the class body, in their order; a subclass becomes a record extension.

  Calling a class with keyword arguments is modelled by a function \<open>C_init\<close>.  Each
  keyword argument is an option: \<open>None\<close> when the caller leaves the keyword out,
  \<open>Some v\<close> when the caller passes \<open>v\<close>.  A field annotated \<open>Optional[T]\<close> holds a
  \<open>T option\<close>, so passing Python's \<open>None\<close> for it is \<open>Some None\<close>.  The arguments
  are typed: input that pydantic would coerce or reject for its type is outside the
  model.  Following pydantic 2, a field is required exactly when the class body gives it
  no default, also when its annotation is \<open>Optional[T]\<close>; a call that leaves a required
  field out raises \<open>ValidationError\<close>, here the \<open>Inl\<close> branch, which lists the names of
  the fields that are missing.  No class of the module declares a validator.
\<close>

type_synonym Path = string

datatype ValidationError = Field_required "string list" | Frozen_instance

fun missing :: "string \<Rightarrow> 'a option \<Rightarrow> string list" where
  "missing name None = [name]"
| "missing name (Some v) = []"

fun with_default :: "'a \<Rightarrow> 'a option \<Rightarrow> 'a" where
  "with_default d None = d"
| "with_default d (Some v) = v"

subsection \<open>ConversionConfig\<close>

record ConversionConfig =
  pptx_path :: Path
  output_path :: Path
  image_dir :: "Path option"
  title_path :: "Path option"
  image_width :: "int option"
  disable_image :: bool
  disable_wmf :: bool
  disable_color :: bool
  disable_escaping :: bool
  disable_notes :: bool
  enable_slides :: bool
  is_wiki :: bool
  is_mdk :: bool
  is_qmd :: bool
  min_block_size :: int
  page :: "int option"
  custom_titles :: "string \<rightharpoonup> int"

text \<open>The keyword arguments of a call \<open>ConversionConfig(...)\<close>.\<close>

record ConversionConfig_kwargs =
  kw_pptx_path :: "Path option"
  kw_output_path :: "Path option"
  kw_image_dir :: "Path option option"
  kw_title_path :: "Path option option"
  kw_image_width :: "int option option"
  kw_disable_image :: "bool option"
  kw_disable_wmf :: "bool option"
  kw_disable_color :: "bool option"
  kw_disable_escaping :: "bool option"
  kw_disable_notes :: "bool option"
  kw_enable_slides :: "bool option"
  kw_is_wiki :: "bool option"
  kw_is_mdk :: "bool option"
  kw_is_qmd :: "bool option"
  kw_min_block_size :: "int option"
  kw_page :: "int option option"
  kw_custom_titles :: "(string \<rightharpoonup> int) option"

definition ConversionConfig_missing :: "ConversionConfig_kwargs \<Rightarrow> string list" where
  "ConversionConfig_missing kw =
     missing ''pptx_path'' (kw_pptx_path kw) @ missing ''output_path'' (kw_output_path kw) @
     missing ''image_dir'' (kw_image_dir kw) @ missing ''title_path'' (kw_title_path kw)"

definition ConversionConfig_init ::
  "ConversionConfig_kwargs \<Rightarrow> ValidationError + ConversionConfig" where
  "ConversionConfig_init kw =
     (case (kw_pptx_path kw, kw_output_path kw, kw_image_dir kw, kw_title_path kw) of
        (Some p, Some out, Some img, Some ttl) \<Rightarrow>
          Inr \<lparr> pptx_path = p,
                output_path = out,
                image_dir = img,
                title_path = ttl,
                image_width = with_default None (kw_image_width kw),
                disable_image = with_default False (kw_disable_image kw),
                disable_wmf = with_default False (kw_disable_wmf kw),
                disable_color = with_default False (kw_disable_color kw),
                disable_escaping = with_default False (kw_disable_escaping kw),
                disable_notes = with_default False (kw_disable_notes kw),
                enable_slides = with_default False (kw_enable_slides kw),
                is_wiki = with_default False (kw_is_wiki kw),
                is_mdk = with_default False (kw_is_mdk kw),
                is_qmd = with_default False (kw_is_qmd kw),
                min_block_size = with_default 15 (kw_min_block_size kw),
                page = with_default None (kw_page kw),
                custom_titles = with_default Map.empty (kw_custom_titles kw) \<rparr>
      | _ \<Rightarrow> Inl (Field_required (ConversionConfig_missing kw)))"

text \<open>A call that passes the four fields without a default and nothing else.\<close>

definition required_only ::
  "Path \<Rightarrow> Path \<Rightarrow> Path option \<Rightarrow> Path option \<Rightarrow> ConversionConfig_kwargs" where
  "required_only p out img ttl =
     \<lparr> kw_pptx_path = Some p, kw_output_path = Some out, kw_image_dir = Some img,
       kw_title_path = Some ttl, kw_image_width = None, kw_disable_image = None,
       kw_disable_wmf = None, kw_disable_color = None, kw_disable_escaping = None,
       kw_disable_notes = None, kw_enable_slides = None, kw_is_wiki = None,
       kw_is_mdk = None, kw_is_qmd = None, kw_min_block_size = None, kw_page = None,
       kw_custom_titles = None \<rparr>"

text \<open>How many of the three dialect selectors a configuration has set.\<close>

definition dialect_count :: "ConversionConfig \<Rightarrow> nat" where
  "dialect_count c =
     (if is_wiki c then 1 else 0) + (if is_mdk c then 1 else 0) + (if is_qmd c then 1 else 0)"

subsection \<open>ElementType\<close>

datatype ElementType =
  TITLE | LIST_ITEM | PARAGRAPH | IMAGE | TABLE | NOTE | COLUMN_START | COLUMN_END

text \<open>\<open>ElementType\<close> is a \<open>str\<close> enumeration: the string each member stands for.\<close>

fun ElementType_value :: "ElementType \<Rightarrow> string" where
  "ElementType_value TITLE = ''title''"
| "ElementType_value LIST_ITEM = ''list_item''"
| "ElementType_value PARAGRAPH = ''paragraph''"
| "ElementType_value IMAGE = ''image''"
| "ElementType_value TABLE = ''table''"
| "ElementType_value NOTE = ''note''"
| "ElementType_value COLUMN_START = ''column_start''"
| "ElementType_value COLUMN_END = ''column_end''"

subsection \<open>TextStyle, TextRun, Position\<close>

record TextStyle =
  is_accent :: bool
  is_strong :: bool
  color_rgb :: "string option"
  hyperlink :: "string option"

definition TextStyle_init ::
  "bool option \<Rightarrow> bool option \<Rightarrow> string option option \<Rightarrow> string option option \<Rightarrow>
   ValidationError + TextStyle" where
  "TextStyle_init accent strong color link =
     Inr \<lparr> is_accent = with_default False accent, is_strong = with_default False strong,
           color_rgb = with_default None color, hyperlink = with_default None link \<rparr>"

record TextRun =
  "text" :: string
  style :: TextStyle

fun TextRun_init :: "string option \<Rightarrow> TextStyle option \<Rightarrow> ValidationError + TextRun" where
  "TextRun_init (Some t) (Some s) = Inr \<lparr> text = t, style = s \<rparr>"
| "TextRun_init t s = Inl (Field_required (missing ''text'' t @ missing ''style'' s))"

text \<open>The four coordinates are Python floats; nothing in the module computes with them.\<close>

record Position =
  left :: real
  top :: real
  width :: real
  height :: real

fun Position_init ::
  "real option \<Rightarrow> real option \<Rightarrow> real option \<Rightarrow> real option \<Rightarrow> ValidationError + Position" where
  "Position_init (Some l) (Some t) (Some w) (Some h) =
     Inr \<lparr> left = l, top = t, width = w, height = h \<rparr>"
| "Position_init l t w h =
     Inl (Field_required (missing ''left'' l @ missing ''top'' t @ missing ''width'' w @
                          missing ''height'' h))"

subsection \<open>The element classes\<close>

record BaseElement =
  type :: ElementType
  position :: "Position option"
  style :: "TextStyle option"

fun BaseElement_init ::
  "ElementType option \<Rightarrow> Position option option \<Rightarrow> TextStyle option option \<Rightarrow>
   ValidationError + BaseElement" where
  "BaseElement_init (Some ty) pos sty =
     Inr \<lparr> type = ty, position = with_default None pos, style = with_default None sty \<rparr>"
| "BaseElement_init None pos sty = Inl (Field_required [''type''])"

record TitleElement = BaseElement +
  content :: string
  level :: int

fun TitleElement_init ::
  "ElementType option \<Rightarrow> Position option option \<Rightarrow> TextStyle option option \<Rightarrow>
   string option \<Rightarrow> int option \<Rightarrow> ValidationError + TitleElement" where
  "TitleElement_init ty pos sty (Some c) (Some l) =
     Inr \<lparr> type = with_default TITLE ty, position = with_default None pos,
           style = with_default None sty, TitleElement.content = c, TitleElement.level = l \<rparr>"
| "TitleElement_init ty pos sty c l =
     Inl (Field_required (missing ''content'' c @ missing ''level'' l))"

record ListItemElement = BaseElement +
  content :: "TextRun list"
  level :: int

fun ListItemElement_init ::
  "ElementType option \<Rightarrow> Position option option \<Rightarrow> TextStyle option option \<Rightarrow>
   TextRun list option \<Rightarrow> int option \<Rightarrow> ValidationError + ListItemElement" where
  "ListItemElement_init ty pos sty (Some c) l =
     Inr \<lparr> type = with_default LIST_ITEM ty, position = with_default None pos,
           style = with_default None sty, ListItemElement.content = c,
           ListItemElement.level = with_default 1 l \<rparr>"
| "ListItemElement_init ty pos sty None l = Inl (Field_required [''content''])"

record ParagraphElement = BaseElement +
  content :: "TextRun list"

fun ParagraphElement_init ::
  "ElementType option \<Rightarrow> Position option option \<Rightarrow> TextStyle option option \<Rightarrow>
   TextRun list option \<Rightarrow> ValidationError + ParagraphElement" where
  "ParagraphElement_init ty pos sty (Some c) =
     Inr \<lparr> type = with_default PARAGRAPH ty, position = with_default None pos,
           style = with_default None sty, ParagraphElement.content = c \<rparr>"
| "ParagraphElement_init ty pos sty None = Inl (Field_required [''content''])"

record ImageElement = BaseElement +
  path :: string
  width :: "int option"
  original_ext :: string
  alt_text :: string

fun ImageElement_init ::
  "ElementType option \<Rightarrow> Position option option \<Rightarrow> TextStyle option option \<Rightarrow>
   string option \<Rightarrow> int option option \<Rightarrow> string option \<Rightarrow> string option \<Rightarrow>
   ValidationError + ImageElement" where
  "ImageElement_init ty pos sty (Some p) w ext alt =
     Inr \<lparr> type = with_default IMAGE ty, position = with_default None pos,
           style = with_default None sty, path = p,
           ImageElement.width = with_default None w,
           original_ext = with_default '''' ext, alt_text = with_default '''' alt \<rparr>"
| "ImageElement_init ty pos sty None w ext alt = Inl (Field_required [''path''])"

text \<open>The content of a table: rows, in each row the cells, in each cell its runs.\<close>

record TableElement = BaseElement +
  content :: "TextRun list list list"

fun TableElement_init ::
  "ElementType option \<Rightarrow> Position option option \<Rightarrow> TextStyle option option \<Rightarrow>
   TextRun list list list option \<Rightarrow> ValidationError + TableElement" where
  "TableElement_init ty pos sty (Some c) =
     Inr \<lparr> type = with_default TABLE ty, position = with_default None pos,
           style = with_default None sty, TableElement.content = c \<rparr>"
| "TableElement_init ty pos sty None = Inl (Field_required [''content''])"

record NoteElement = BaseElement +
  content :: "TextRun list"

fun NoteElement_init ::
  "ElementType option \<Rightarrow> Position option option \<Rightarrow> TextStyle option option \<Rightarrow>
   TextRun list option \<Rightarrow> ValidationError + NoteElement" where
  "NoteElement_init ty pos sty (Some c) =
     Inr \<lparr> type = with_default NOTE ty, position = with_default None pos,
           style = with_default None sty, NoteElement.content = c \<rparr>"
| "NoteElement_init ty pos sty None = Inl (Field_required [''content''])"

record ColumnStartElement = BaseElement +
  width :: string

fun ColumnStartElement_init ::
  "ElementType option \<Rightarrow> Position option option \<Rightarrow> TextStyle option option \<Rightarrow>
   string option \<Rightarrow> ValidationError + ColumnStartElement" where
  "ColumnStartElement_init ty pos sty (Some w) =
     Inr \<lparr> type = with_default COLUMN_START ty, position = with_default None pos,
           style = with_default None sty, ColumnStartElement.width = w \<rparr>"
| "ColumnStartElement_init ty pos sty None = Inl (Field_required [''width''])"

text \<open>\<open>ColumnEndElement\<close> adds no field to \<open>BaseElement\<close>, only the default of \<open>type\<close>.\<close>

type_synonym ColumnEndElement = BaseElement

definition ColumnEndElement_init ::
  "ElementType option \<Rightarrow> Position option option \<Rightarrow> TextStyle option option \<Rightarrow>
   ValidationError + ColumnEndElement" where
  "ColumnEndElement_init ty pos sty =
     Inr \<lparr> type = with_default COLUMN_END ty, position = with_default None pos,
           style = with_default None sty \<rparr>"

subsection \<open>SlideElement: the union of the eight element classes\<close>

datatype SlideElement =
    Title TitleElement
  | ListItem ListItemElement
  | Paragraph ParagraphElement
  | Image ImageElement
  | Table TableElement
  | Note NoteElement
  | ColumnStart ColumnStartElement
  | ColumnEnd ColumnEndElement

text \<open>The members of the union, in its order, and the class an element is an instance of.\<close>

datatype ElementClass =
    TitleElement_class
  | ListItemElement_class
  | ParagraphElement_class
  | ImageElement_class
  | TableElement_class
  | NoteElement_class
  | ColumnStartElement_class
  | ColumnEndElement_class

fun class_of :: "SlideElement \<Rightarrow> ElementClass" where
  "class_of (Title e) = TitleElement_class"
| "class_of (ListItem e) = ListItemElement_class"
| "class_of (Paragraph e) = ParagraphElement_class"
| "class_of (Image e) = ImageElement_class"
| "class_of (Table e) = TableElement_class"
| "class_of (Note e) = NoteElement_class"
| "class_of (ColumnStart e) = ColumnStartElement_class"
| "class_of (ColumnEnd e) = ColumnEndElement_class"

text \<open>The default that the body of each class gives its \<open>type\<close> field.\<close>

fun class_type :: "ElementClass \<Rightarrow> ElementType" where
  "class_type TitleElement_class = TITLE"
| "class_type ListItemElement_class = LIST_ITEM"
| "class_type ParagraphElement_class = PARAGRAPH"
| "class_type ImageElement_class = IMAGE"
| "class_type TableElement_class = TABLE"
| "class_type NoteElement_class = NOTE"
| "class_type ColumnStartElement_class = COLUMN_START"
| "class_type ColumnEndElement_class = COLUMN_END"

text \<open>Reading the three fields inherited from \<open>BaseElement\<close> off an element of the union.\<close>

fun element_type :: "SlideElement \<Rightarrow> ElementType" where
  "element_type (Title e) = type e"
| "element_type (ListItem e) = type e"
| "element_type (Paragraph e) = type e"
| "element_type (Image e) = type e"
| "element_type (Table e) = type e"
| "element_type (Note e) = type e"
| "element_type (ColumnStart e) = type e"
| "element_type (ColumnEnd e) = type e"

fun element_position :: "SlideElement \<Rightarrow> Position option" where
  "element_position (Title e) = position e"
| "element_position (ListItem e) = position e"
| "element_position (Paragraph e) = position e"
| "element_position (Image e) = position e"
| "element_position (Table e) = position e"
| "element_position (Note e) = position e"
| "element_position (ColumnStart e) = position e"
| "element_position (ColumnEnd e) = position e"

fun element_style :: "SlideElement \<Rightarrow> TextStyle option" where
  "element_style (Title e) = BaseElement.style e"
| "element_style (ListItem e) = BaseElement.style e"
| "element_style (Paragraph e) = BaseElement.style e"
| "element_style (Image e) = BaseElement.style e"
| "element_style (Table e) = BaseElement.style e"
| "element_style (Note e) = BaseElement.style e"
| "element_style (ColumnStart e) = BaseElement.style e"
| "element_style (ColumnEnd e) = BaseElement.style e"

text \<open>
  A call of one of the eight classes with its keyword arguments: first the three inherited
  ones (\<open>type\<close>, \<open>position\<close>, \<open>style\<close>), then those of the class body.
\<close>

datatype SlideElement_call =
    TitleElement_call "ElementType option" "Position option option" "TextStyle option option"
      "string option" "int option"
  | ListItemElement_call "ElementType option" "Position option option" "TextStyle option option"
      "TextRun list option" "int option"
  | ParagraphElement_call "ElementType option" "Position option option"
      "TextStyle option option" "TextRun list option"
  | ImageElement_call "ElementType option" "Position option option" "TextStyle option option"
      "string option" "int option option" "string option" "string option"
  | TableElement_call "ElementType option" "Position option option" "TextStyle option option"
      "TextRun list list list option"
  | NoteElement_call "ElementType option" "Position option option" "TextStyle option option"
      "TextRun list option"
  | ColumnStartElement_call "ElementType option" "Position option option"
      "TextStyle option option" "string option"
  | ColumnEndElement_call "ElementType option" "Position option option"
      "TextStyle option option"

fun SlideElement_init :: "SlideElement_call \<Rightarrow> ValidationError + SlideElement" where
  "SlideElement_init (TitleElement_call ty pos sty c l) =
     map_sum id Title (TitleElement_init ty pos sty c l)"
| "SlideElement_init (ListItemElement_call ty pos sty c l) =
     map_sum id ListItem (ListItemElement_init ty pos sty c l)"
| "SlideElement_init (ParagraphElement_call ty pos sty c) =
     map_sum id Paragraph (ParagraphElement_init ty pos sty c)"
| "SlideElement_init (ImageElement_call ty pos sty p w ext alt) =
     map_sum id Image (ImageElement_init ty pos sty p w ext alt)"
| "SlideElement_init (TableElement_call ty pos sty c) =
     map_sum id Table (TableElement_init ty pos sty c)"
| "SlideElement_init (NoteElement_call ty pos sty c) =
     map_sum id Note (NoteElement_init ty pos sty c)"
| "SlideElement_init (ColumnStartElement_call ty pos sty w) =
     map_sum id ColumnStart (ColumnStartElement_init ty pos sty w)"
| "SlideElement_init (ColumnEndElement_call ty pos sty) =
     map_sum id ColumnEnd (ColumnEndElement_init ty pos sty)"

subsection \<open>Slide and ParsedPresentation\<close>

record Slide =
  elements :: "SlideElement list"
  "notes" :: "string list"

fun Slide_init ::
  "SlideElement list option \<Rightarrow> string list option \<Rightarrow> ValidationError + Slide" where
  "Slide_init (Some es) (Some ns) = Inr \<lparr> elements = es, notes = ns \<rparr>"
| "Slide_init es ns = Inl (Field_required (missing ''elements'' es @ missing ''notes'' ns))"

record ParsedPresentation =
  slides :: "Slide list"

fun ParsedPresentation_init :: "Slide list option \<Rightarrow> ValidationError + ParsedPresentation" where
  "ParsedPresentation_init (Some ss) = Inr \<lparr> slides = ss \<rparr>"
| "ParsedPresentation_init None = Inl (Field_required [''slides''])"

subsection \<open>Assignment to a field of an instance\<close>

text \<open>
  No class of the module sets \<open>model_config\<close>, so pydantic's default holds for each of
  them: the model is not frozen.  An assignment \<open>obj.field = v\<close> to a declared field of a
  frozen model raises; on a model that is not frozen it stores \<open>v\<close>.
\<close>

definition model_config_frozen :: bool where
  "model_config_frozen = False"

datatype ConversionConfig_assignment =
    Set_pptx_path Path
  | Set_output_path Path
  | Set_image_dir "Path option"
  | Set_title_path "Path option"
  | Set_image_width "int option"
  | Set_disable_image bool
  | Set_disable_wmf bool
  | Set_disable_color bool
  | Set_disable_escaping bool
  | Set_disable_notes bool
  | Set_enable_slides bool
  | Set_is_wiki bool
  | Set_is_mdk bool
  | Set_is_qmd bool
  | Set_min_block_size int
  | Set_page "int option"
  | Set_custom_titles "string \<rightharpoonup> int"

fun ConversionConfig_store ::
  "ConversionConfig \<Rightarrow> ConversionConfig_assignment \<Rightarrow> ConversionConfig" where
  "ConversionConfig_store c (Set_pptx_path v) = c\<lparr>pptx_path := v\<rparr>"
| "ConversionConfig_store c (Set_output_path v) = c\<lparr>output_path := v\<rparr>"
| "ConversionConfig_store c (Set_image_dir v) = c\<lparr>image_dir := v\<rparr>"
| "ConversionConfig_store c (Set_title_path v) = c\<lparr>title_path := v\<rparr>"
| "ConversionConfig_store c (Set_image_width v) = c\<lparr>image_width := v\<rparr>"
| "ConversionConfig_store c (Set_disable_image v) = c\<lparr>disable_image := v\<rparr>"
| "ConversionConfig_store c (Set_disable_wmf v) = c\<lparr>disable_wmf := v\<rparr>"
| "ConversionConfig_store c (Set_disable_color v) = c\<lparr>disable_color := v\<rparr>"
| "ConversionConfig_store c (Set_disable_escaping v) = c\<lparr>disable_escaping := v\<rparr>"
| "ConversionConfig_store c (Set_disable_notes v) = c\<lparr>disable_notes := v\<rparr>"
| "ConversionConfig_store c (Set_enable_slides v) = c\<lparr>enable_slides := v\<rparr>"
| "ConversionConfig_store c (Set_is_wiki v) = c\<lparr>is_wiki := v\<rparr>"
| "ConversionConfig_store c (Set_is_mdk v) = c\<lparr>is_mdk := v\<rparr>"
| "ConversionConfig_store c (Set_is_qmd v) = c\<lparr>is_qmd := v\<rparr>"
| "ConversionConfig_store c (Set_min_block_size v) = c\<lparr>min_block_size := v\<rparr>"
| "ConversionConfig_store c (Set_page v) = c\<lparr>page := v\<rparr>"
| "ConversionConfig_store c (Set_custom_titles v) = c\<lparr>custom_titles := v\<rparr>"

definition ConversionConfig_setattr ::
  "ConversionConfig \<Rightarrow> ConversionConfig_assignment \<Rightarrow> ValidationError + ConversionConfig" where
  "ConversionConfig_setattr c a =
     (if model_config_frozen then Inl Frozen_instance else Inr (ConversionConfig_store c a))"

text \<open>\<open>ParsedPresentation\<close> has the one field \<open>slides\<close>.\<close>

definition ParsedPresentation_setattr ::
  "ParsedPresentation \<Rightarrow> Slide list \<Rightarrow> ValidationError + ParsedPresentation" where
  "ParsedPresentation_setattr p ss =
     (if model_config_frozen then Inl Frozen_instance else Inr (p\<lparr>slides := ss\<rparr>))"

subsection \<open>The properties the specification states of the data\<close>

text \<open>
  Scanning the elements of a slide in order at column depth \<open>d\<close>: a \<open>ColumnStartElement\<close>
  is accepted at depth 0 only and leads to depth 1, a \<open>ColumnEndElement\<close> is accepted at
  depth 1 only and leads back to depth 0, and the scan has to end at depth 0.
\<close>

fun column_scan :: "nat \<Rightarrow> SlideElement list \<Rightarrow> bool" where
  "column_scan d [] = (d = 0)"
| "column_scan d (ColumnStart e # es) = (d = 0 \<and> column_scan 1 es)"
| "column_scan d (ColumnEnd e # es) = (d = 1 \<and> column_scan 0 es)"
| "column_scan d (e # es) = column_scan d es"

definition columns_balanced :: "SlideElement list \<Rightarrow> bool" where
  "columns_balanced es = column_scan 0 es"

text \<open>Every row of a grid has \<open>n\<close> cells; a grid is rectangular when its rows agree.\<close>

fun rows_of_length :: "nat \<Rightarrow> 'a list list \<Rightarrow> bool" where
  "rows_of_length n [] = True"
| "rows_of_length n (r # rs) = (length r = n \<and> rows_of_length n rs)"

fun rectangular :: "'a list list \<Rightarrow> bool" where
  "rectangular [] = True"
| "rectangular (r # rs) = rows_of_length (length r) rs"

section \<open>Defaults\<close>

lemma with_default_case: "with_default d x = (case x of None \<Rightarrow> d | Some v \<Rightarrow> v)"
  by (cases x) simp_all

section \<open>The type tags\<close>

lemma inj_class_type: "inj class_type"
proof (rule injI)
  fix x y assume "class_type x = class_type y"
  then show "x = y" by (cases x; cases y; simp)
qed

lemma surj_class_type: "surj class_type"
proof (rule surjI)
  show "class_type (case t of TITLE \<Rightarrow> TitleElement_class | LIST_ITEM \<Rightarrow> ListItemElement_class
     | PARAGRAPH \<Rightarrow> ParagraphElement_class | IMAGE \<Rightarrow> ImageElement_class
     | TABLE \<Rightarrow> TableElement_class | NOTE \<Rightarrow> NoteElement_class
     | COLUMN_START \<Rightarrow> ColumnStartElement_class | COLUMN_END \<Rightarrow> ColumnEndElement_class) = t" for t
    by (cases t; simp)
qed

lemma inj_ElementType_value: "inj ElementType_value"
proof (rule injI)
  fix x y assume "ElementType_value x = ElementType_value y"
  then show "x = y" by (cases x; cases y; simp)
qed

lemma ElementType_UNIV:
  "(UNIV :: ElementType set) =
     {TITLE, LIST_ITEM, PARAGRAPH, IMAGE, TABLE, NOTE, COLUMN_START, COLUMN_END}"
proof -
  have "t \<in> {TITLE, LIST_ITEM, PARAGRAPH, IMAGE, TABLE, NOTE, COLUMN_START, COLUMN_END}" for t
    by (cases t) simp_all
  then show ?thesis by blast
qed

lemma card_ElementType: "card (UNIV :: ElementType set) = 8"
  by (simp add: ElementType_UNIV)

text \<open>
  C1, as stated, at a concrete input: a \<open>TitleElement\<close> built with \<open>type=ElementType.NOTE\<close>
  is constructed, and its type tag differs from the tag of its class.
\<close>

theorem type_tag_overridden_counterexample:
  "\<not> isl (SlideElement_init (TitleElement_call (Some NOTE) None None (Some ''Intro'') (Some 1))) \<and>
   element_type (projr (SlideElement_init
       (TitleElement_call (Some NOTE) None None (Some ''Intro'') (Some 1)))) \<noteq>
   class_type (class_of (projr (SlideElement_init
       (TitleElement_call (Some NOTE) None None (Some ''Intro'') (Some 1)))))"
  by simp

text \<open>
  C1, amended: \<open>SlideElement\<close> is the union of exactly eight classes, and each class
  declares \<open>type\<close> as an ordinary \<open>ElementType\<close> field whose default is the tag of the
  class; nothing restricts the field to that tag.  For each of the eight classes, a call
  that passes the required fields of the class succeeds and returns an instance of that
  class, whose type tag is the tag passed for \<open>type\<close> and, when \<open>type\<close> is left out, the
  tag of the class.  The tags of the eight classes are, in the order of the union, the
  eight members of \<open>ElementType\<close> in their order: they are pairwise distinct and every
  member is the tag of exactly one class (\<open>class_type\<close> is a bijection); the strings of
  the members are pairwise distinct too.
\<close>

theorem type_tag_default:
  "\<not> isl (SlideElement_init (TitleElement_call ty1 pos1 sty1 (Some c1) (Some l1))) \<and>
   class_of (projr (SlideElement_init (TitleElement_call ty1 pos1 sty1 (Some c1) (Some l1)))) =
     TitleElement_class \<and>
   element_type (projr (SlideElement_init (TitleElement_call ty1 pos1 sty1 (Some c1) (Some l1)))) =
     (case ty1 of None \<Rightarrow> TITLE | Some t \<Rightarrow> t) \<and>
   \<not> isl (SlideElement_init (ListItemElement_call ty2 pos2 sty2 (Some c2) l2)) \<and>
   class_of (projr (SlideElement_init (ListItemElement_call ty2 pos2 sty2 (Some c2) l2))) =
     ListItemElement_class \<and>
   element_type (projr (SlideElement_init (ListItemElement_call ty2 pos2 sty2 (Some c2) l2))) =
     (case ty2 of None \<Rightarrow> LIST_ITEM | Some t \<Rightarrow> t) \<and>
   \<not> isl (SlideElement_init (ParagraphElement_call ty3 pos3 sty3 (Some c3))) \<and>
   class_of (projr (SlideElement_init (ParagraphElement_call ty3 pos3 sty3 (Some c3)))) =
     ParagraphElement_class \<and>
   element_type (projr (SlideElement_init (ParagraphElement_call ty3 pos3 sty3 (Some c3)))) =
     (case ty3 of None \<Rightarrow> PARAGRAPH | Some t \<Rightarrow> t) \<and>
   \<not> isl (SlideElement_init (ImageElement_call ty4 pos4 sty4 (Some p4) w4 ext4 alt4)) \<and>
   class_of (projr (SlideElement_init (ImageElement_call ty4 pos4 sty4 (Some p4) w4 ext4 alt4))) =
     ImageElement_class \<and>
   element_type (projr (SlideElement_init
       (ImageElement_call ty4 pos4 sty4 (Some p4) w4 ext4 alt4))) =
     (case ty4 of None \<Rightarrow> IMAGE | Some t \<Rightarrow> t) \<and>
   \<not> isl (SlideElement_init (TableElement_call ty5 pos5 sty5 (Some c5))) \<and>
   class_of (projr (SlideElement_init (TableElement_call ty5 pos5 sty5 (Some c5)))) =
     TableElement_class \<and>
   element_type (projr (SlideElement_init (TableElement_call ty5 pos5 sty5 (Some c5)))) =
     (case ty5 of None \<Rightarrow> TABLE | Some t \<Rightarrow> t) \<and>
   \<not> isl (SlideElement_init (NoteElement_call ty6 pos6 sty6 (Some c6))) \<and>
   class_of (projr (SlideElement_init (NoteElement_call ty6 pos6 sty6 (Some c6)))) =
     NoteElement_class \<and>
   element_type (projr (SlideElement_init (NoteElement_call ty6 pos6 sty6 (Some c6)))) =
     (case ty6 of None \<Rightarrow> NOTE | Some t \<Rightarrow> t) \<and>
   \<not> isl (SlideElement_init (ColumnStartElement_call ty7 pos7 sty7 (Some w7))) \<and>
   class_of (projr (SlideElement_init (ColumnStartElement_call ty7 pos7 sty7 (Some w7)))) =
     ColumnStartElement_class \<and>
   element_type (projr (SlideElement_init (ColumnStartElement_call ty7 pos7 sty7 (Some w7)))) =
     (case ty7 of None \<Rightarrow> COLUMN_START | Some t \<Rightarrow> t) \<and>
   \<not> isl (SlideElement_init (ColumnEndElement_call ty8 pos8 sty8)) \<and>
   class_of (projr (SlideElement_init (ColumnEndElement_call ty8 pos8 sty8))) =
     ColumnEndElement_class \<and>
   element_type (projr (SlideElement_init (ColumnEndElement_call ty8 pos8 sty8))) =
     (case ty8 of None \<Rightarrow> COLUMN_END | Some t \<Rightarrow> t) \<and>
   map class_type
     [TitleElement_class, ListItemElement_class, ParagraphElement_class, ImageElement_class,
      TableElement_class, NoteElement_class, ColumnStartElement_class, ColumnEndElement_class] =
     [TITLE, LIST_ITEM, PARAGRAPH, IMAGE, TABLE, NOTE, COLUMN_START, COLUMN_END] \<and>
   bij class_type \<and> card (UNIV :: ElementType set) = 8 \<and> inj ElementType_value"
  by (simp add: with_default_case ColumnEndElement_init_def bij_def inj_class_type
        surj_class_type inj_ElementType_value card_ElementType)

text \<open>
  The same at concrete calls: a paragraph built with \<open>type=ElementType.TABLE\<close> carries the
  tag \<open>TABLE\<close>, and a column start built without \<open>type\<close> carries \<open>COLUMN_START\<close>.
\<close>

theorem type_tag_default_witness:
  "element_type (projr (SlideElement_init
       (ParagraphElement_call (Some TABLE) None None (Some [])))) = TABLE \<and>
   class_of (projr (SlideElement_init
       (ParagraphElement_call (Some TABLE) None None (Some [])))) = ParagraphElement_class \<and>
   element_type (projr (SlideElement_init
       (ColumnStartElement_call None None None (Some ''50%'')))) = COLUMN_START"
  using type_tag_default [where ?ty3.0 = "Some TABLE" and ?pos3.0 = None and ?sty3.0 = None
      and ?c3.0 = "[]" and ?ty7.0 = None and ?pos7.0 = None and ?sty7.0 = None
      and ?w7.0 = "''50%''"]
  by simp

section \<open>Construction of a ConversionConfig\<close>

text \<open>
  C2, as stated, at a concrete input: a call that passes the required fields together with
  \<open>is_wiki=True\<close> and \<open>is_mdk=True\<close> does not fail; the value it returns has two dialect
  selectors set.
\<close>

theorem two_dialects_counterexample:
  "\<not> isl (ConversionConfig_init
            ((required_only ''deck.pptx'' ''deck.md'' None None)
               \<lparr>kw_is_wiki := Some True, kw_is_mdk := Some True\<rparr>)) \<and>
   dialect_count (projr (ConversionConfig_init
            ((required_only ''deck.pptx'' ''deck.md'' None None)
               \<lparr>kw_is_wiki := Some True, kw_is_mdk := Some True\<rparr>))) = 2"
  by (simp add: ConversionConfig_init_def required_only_def dialect_count_def)

text \<open>
  C2, amended: \<open>is_wiki\<close>, \<open>is_mdk\<close>, \<open>is_qmd\<close> and \<open>enable_slides\<close> are independent boolean
  fields.  Construction checks no combination of them: whenever the four required fields
  are passed the call succeeds, and each of the four flags holds the value passed for it,
  \<open>False\<close> when it is left out.
\<close>

theorem ConversionConfig_flags_unchecked:
  assumes "kw_pptx_path kw = Some p" and "kw_output_path kw = Some out"
    and "kw_image_dir kw = Some img" and "kw_title_path kw = Some ttl"
  shows "\<not> isl (ConversionConfig_init kw) \<and>
         is_wiki (projr (ConversionConfig_init kw)) = with_default False (kw_is_wiki kw) \<and>
         is_mdk (projr (ConversionConfig_init kw)) = with_default False (kw_is_mdk kw) \<and>
         is_qmd (projr (ConversionConfig_init kw)) = with_default False (kw_is_qmd kw) \<and>
         enable_slides (projr (ConversionConfig_init kw)) =
           with_default False (kw_enable_slides kw)"
  using assms by (simp add: ConversionConfig_init_def)

theorem ConversionConfig_flags_unchecked_witness:
  "is_wiki (projr (ConversionConfig_init
      ((required_only ''deck.pptx'' ''deck.md'' None None)
         \<lparr>kw_enable_slides := Some True, kw_is_wiki := Some True, kw_is_qmd := Some True\<rparr>))) \<and>
   is_qmd (projr (ConversionConfig_init
      ((required_only ''deck.pptx'' ''deck.md'' None None)
         \<lparr>kw_enable_slides := Some True, kw_is_wiki := Some True, kw_is_qmd := Some True\<rparr>))) \<and>
   enable_slides (projr (ConversionConfig_init
      ((required_only ''deck.pptx'' ''deck.md'' None None)
         \<lparr>kw_enable_slides := Some True, kw_is_wiki := Some True, kw_is_qmd := Some True\<rparr>)))"
  using ConversionConfig_flags_unchecked
    [of "(required_only ''deck.pptx'' ''deck.md'' None None)
           \<lparr>kw_enable_slides := Some True, kw_is_wiki := Some True, kw_is_qmd := Some True\<rparr>"
        "''deck.pptx''" "''deck.md''" None None]
  by (simp add: required_only_def)

section \<open>The content of slides and elements\<close>

text \<open>
  C3, as stated, at a concrete input: a slide whose only element is a \<open>ColumnEndElement\<close>
  is constructed, and so is a presentation holding it; its column markers are not balanced.
\<close>

theorem lone_column_end_counterexample:
  "\<not> isl (ParsedPresentation_init (Some
       [projr (Slide_init (Some [ColumnEnd \<lparr> type = COLUMN_END, position = None, style = None \<rparr>])
                          (Some []))])) \<and>
   \<not> isl (Slide_init (Some [ColumnEnd \<lparr> type = COLUMN_END, position = None, style = None \<rparr>])
                      (Some [])) \<and>
   \<not> columns_balanced (elements (projr
       (Slide_init (Some [ColumnEnd \<lparr> type = COLUMN_END, position = None, style = None \<rparr>])
                   (Some []))))"
  by (simp add: columns_balanced_def)

text \<open>
  C3, amended: \<open>Slide\<close> and \<open>ParsedPresentation\<close> accept every sequence.  Constructing a
  slide from a sequence of elements and a sequence of notes succeeds and stores the elements
  as passed, in their order, so the column markers of the slide are balanced and non-nested
  exactly when those of the sequence passed are; constructing a presentation from a
  sequence of slides succeeds and stores the slides as passed.
\<close>

theorem Slide_keeps_elements:
  "\<not> isl (Slide_init (Some es) (Some ns)) \<and>
   elements (projr (Slide_init (Some es) (Some ns))) = es \<and>
   columns_balanced (elements (projr (Slide_init (Some es) (Some ns)))) = columns_balanced es \<and>
   \<not> isl (ParsedPresentation_init (Some ss)) \<and>
   slides (projr (ParsedPresentation_init (Some ss))) = ss"
  by simp

text \<open>
  C4, as stated, at a concrete input: a \<open>TitleElement\<close> with \<open>level=0\<close> and a
  \<open>ListItemElement\<close> with \<open>level=-3\<close> are constructed, and their level is below 1.
\<close>

theorem level_zero_counterexample:
  "\<not> isl (TitleElement_init None None None (Some ''Intro'') (Some 0)) \<and>
   \<not> 1 \<le> TitleElement.level (projr (TitleElement_init None None None (Some ''Intro'') (Some 0))) \<and>
   \<not> isl (ListItemElement_init None None None (Some []) (Some (- 3))) \<and>
   \<not> 1 \<le> ListItemElement.level
            (projr (ListItemElement_init None None None (Some []) (Some (- 3))))"
  by simp

text \<open>
  C4, amended: \<open>level\<close> is an integer without a bound.  A \<open>TitleElement\<close> needs its level
  passed and stores it as passed; a \<open>ListItemElement\<close> stores the level passed, and 1 when
  the level is left out.
\<close>

theorem level_unconstrained:
  "\<not> isl (TitleElement_init ty pos sty (Some c) (Some l)) \<and>
   TitleElement.level (projr (TitleElement_init ty pos sty (Some c) (Some l))) = l \<and>
   isl (TitleElement_init ty pos sty (Some c) None) \<and>
   \<not> isl (ListItemElement_init ty pos sty (Some rs) l') \<and>
   ListItemElement.level (projr (ListItemElement_init ty pos sty (Some rs) l')) =
     with_default 1 l'"
  by simp

text \<open>
  C5, as stated, at a concrete input: a \<open>TextRun\<close> with the empty string as its text and a
  default \<open>TextStyle\<close> is constructed.
\<close>

theorem empty_text_counterexample:
  "\<not> isl (TextRun_init (Some '''') (Some (projr (TextStyle_init None None None None)))) \<and>
   text (projr (TextRun_init (Some '''') (Some (projr (TextStyle_init None None None None))))) = ''''"
  by (simp add: TextStyle_init_def)

text \<open>
  C5, amended: \<open>text\<close> is a string without a constraint.  Constructing a \<open>TextRun\<close> fails
  exactly when \<open>text\<close> or \<open>style\<close> is left out; every string passed, the empty one too, is
  stored as passed.
\<close>

theorem TextRun_text_unconstrained:
  "isl (TextRun_init t s) = (t = None \<or> s = None) \<and>
   text (projr (TextRun_init (Some txt) (Some sty))) = txt"
  by (cases t; cases s; simp)

text \<open>
  C6, as stated, at a concrete input: a \<open>TableElement\<close> whose first row has two cells and
  whose second row has one is constructed.
\<close>

theorem ragged_table_counterexample:
  "\<not> isl (TableElement_init None None None (Some [[[], []], [[]]])) \<and>
   \<not> rectangular (TableElement.content
        (projr (TableElement_init None None None (Some [[[], []], [[]]]))))"
  by simp

text \<open>
  C6, amended: the content of a \<open>TableElement\<close> is a list of rows without a constraint on
  their lengths.  Constructing a table from any list of rows succeeds and stores the rows
  as passed, so the content is rectangular exactly when the rows passed are.
\<close>

theorem TableElement_content_unconstrained:
  "\<not> isl (TableElement_init ty pos sty (Some rows)) \<and>
   TableElement.content (projr (TableElement_init ty pos sty (Some rows))) = rows \<and>
   rectangular (TableElement.content (projr (TableElement_init ty pos sty (Some rows)))) =
     rectangular rows"
  by simp

section \<open>Assignment after construction\<close>

text \<open>
  C7, as stated, at a concrete input: on a configuration constructed from the required
  fields only, the assignment \<open>config.is_wiki = True\<close> succeeds, and \<open>is_wiki\<close> read
  afterwards differs from \<open>is_wiki\<close> read before.
\<close>

theorem assignment_counterexample:
  "\<not> isl (ConversionConfig_setattr
       (projr (ConversionConfig_init (required_only ''deck.pptx'' ''deck.md'' None None)))
       (Set_is_wiki True)) \<and>
   is_wiki (projr (ConversionConfig_setattr
       (projr (ConversionConfig_init (required_only ''deck.pptx'' ''deck.md'' None None)))
       (Set_is_wiki True))) \<noteq>
   is_wiki (projr (ConversionConfig_init (required_only ''deck.pptx'' ''deck.md'' None None)))"
  by (simp add: ConversionConfig_setattr_def model_config_frozen_def ConversionConfig_init_def
        required_only_def)

text \<open>
  C7, amended: \<open>ConversionConfig\<close> and \<open>ParsedPresentation\<close> are not declared frozen.  An
  assignment to any of the seventeen declared fields of a constructed \<open>ConversionConfig\<close>
  succeeds; afterwards the field assigned reads the value assigned and every other field
  reads as before (the result is the record updated at that one field).  An assignment to
  \<open>slides\<close> of a constructed \<open>ParsedPresentation\<close> succeeds, and the presentation then
  holds the slides assigned.
\<close>

theorem models_not_frozen:
  "ConversionConfig_setattr c (Set_pptx_path v1) = Inr (c\<lparr>pptx_path := v1\<rparr>) \<and>
   ConversionConfig_setattr c (Set_output_path v2) = Inr (c\<lparr>output_path := v2\<rparr>) \<and>
   ConversionConfig_setattr c (Set_image_dir v3) = Inr (c\<lparr>image_dir := v3\<rparr>) \<and>
   ConversionConfig_setattr c (Set_title_path v4) = Inr (c\<lparr>title_path := v4\<rparr>) \<and>
   ConversionConfig_setattr c (Set_image_width v5) = Inr (c\<lparr>image_width := v5\<rparr>) \<and>
   ConversionConfig_setattr c (Set_disable_image v6) = Inr (c\<lparr>disable_image := v6\<rparr>) \<and>
   ConversionConfig_setattr c (Set_disable_wmf v7) = Inr (c\<lparr>disable_wmf := v7\<rparr>) \<and>
   ConversionConfig_setattr c (Set_disable_color v8) = Inr (c\<lparr>disable_color := v8\<rparr>) \<and>
   ConversionConfig_setattr c (Set_disable_escaping v9) = Inr (c\<lparr>disable_escaping := v9\<rparr>) \<and>
   ConversionConfig_setattr c (Set_disable_notes v10) = Inr (c\<lparr>disable_notes := v10\<rparr>) \<and>
   ConversionConfig_setattr c (Set_enable_slides v11) = Inr (c\<lparr>enable_slides := v11\<rparr>) \<and>
   ConversionConfig_setattr c (Set_is_wiki v12) = Inr (c\<lparr>is_wiki := v12\<rparr>) \<and>
   ConversionConfig_setattr c (Set_is_mdk v13) = Inr (c\<lparr>is_mdk := v13\<rparr>) \<and>
   ConversionConfig_setattr c (Set_is_qmd v14) = Inr (c\<lparr>is_qmd := v14\<rparr>) \<and>
   ConversionConfig_setattr c (Set_min_block_size v15) = Inr (c\<lparr>min_block_size := v15\<rparr>) \<and>
   ConversionConfig_setattr c (Set_page v16) = Inr (c\<lparr>page := v16\<rparr>) \<and>
   ConversionConfig_setattr c (Set_custom_titles v17) = Inr (c\<lparr>custom_titles := v17\<rparr>) \<and>
   ParsedPresentation_setattr p ss = Inr (p\<lparr>slides := ss\<rparr>) \<and>
   slides (projr (ParsedPresentation_setattr p ss)) = ss"
  by (simp add: ConversionConfig_setattr_def ParsedPresentation_setattr_def
        model_config_frozen_def)

section \<open>Position and style of an element\<close>

text \<open>
  C8: every one of the eight element classes has the fields \<open>position\<close> and \<open>style\<close>, both
  optional.  For each of the eight classes, a call that passes the required fields of the
  class succeeds whatever is passed or left out for \<open>position\<close> and \<open>style\<close>; the element
  holds the position passed, which may be \<open>None\<close>, and \<open>None\<close> when \<open>position\<close> is left
  out, and likewise for \<open>style\<close>.
\<close>

theorem position_and_style_optional:
  "\<not> isl (SlideElement_init (TitleElement_call ty1 pos1 sty1 (Some c1) (Some l1))) \<and>
   element_position (projr (SlideElement_init
       (TitleElement_call ty1 pos1 sty1 (Some c1) (Some l1)))) =
     (case pos1 of None \<Rightarrow> None | Some p \<Rightarrow> p) \<and>
   element_style (projr (SlideElement_init
       (TitleElement_call ty1 pos1 sty1 (Some c1) (Some l1)))) =
     (case sty1 of None \<Rightarrow> None | Some s \<Rightarrow> s) \<and>
   \<not> isl (SlideElement_init (ListItemElement_call ty2 pos2 sty2 (Some c2) l2)) \<and>
   element_position (projr (SlideElement_init
       (ListItemElement_call ty2 pos2 sty2 (Some c2) l2))) =
     (case pos2 of None \<Rightarrow> None | Some p \<Rightarrow> p) \<and>
   element_style (projr (SlideElement_init
       (ListItemElement_call ty2 pos2 sty2 (Some c2) l2))) =
     (case sty2 of None \<Rightarrow> None | Some s \<Rightarrow> s) \<and>
   \<not> isl (SlideElement_init (ParagraphElement_call ty3 pos3 sty3 (Some c3))) \<and>
   element_position (projr (SlideElement_init
       (ParagraphElement_call ty3 pos3 sty3 (Some c3)))) =
     (case pos3 of None \<Rightarrow> None | Some p \<Rightarrow> p) \<and>
   element_style (projr (SlideElement_init
       (ParagraphElement_call ty3 pos3 sty3 (Some c3)))) =
     (case sty3 of None \<Rightarrow> None | Some s \<Rightarrow> s) \<and>
   \<not> isl (SlideElement_init (ImageElement_call ty4 pos4 sty4 (Some p4) w4 ext4 alt4)) \<and>
   element_position (projr (SlideElement_init
       (ImageElement_call ty4 pos4 sty4 (Some p4) w4 ext4 alt4))) =
     (case pos4 of None \<Rightarrow> None | Some p \<Rightarrow> p) \<and>
   element_style (projr (SlideElement_init
       (ImageElement_call ty4 pos4 sty4 (Some p4) w4 ext4 alt4))) =
     (case sty4 of None \<Rightarrow> None | Some s \<Rightarrow> s) \<and>
   \<not> isl (SlideElement_init (TableElement_call ty5 pos5 sty5 (Some c5))) \<and>
   element_position (projr (SlideElement_init
       (TableElement_call ty5 pos5 sty5 (Some c5)))) =
     (case pos5 of None \<Rightarrow> None | Some p \<Rightarrow> p) \<and>
   element_style (projr (SlideElement_init
       (TableElement_call ty5 pos5 sty5 (Some c5)))) =
     (case sty5 of None \<Rightarrow> None | Some s \<Rightarrow> s) \<and>
   \<not> isl (SlideElement_init (NoteElement_call ty6 pos6 sty6 (Some c6))) \<and>
   element_position (projr (SlideElement_init
       (NoteElement_call ty6 pos6 sty6 (Some c6)))) =
     (case pos6 of None \<Rightarrow> None | Some p \<Rightarrow> p) \<and>
   element_style (projr (SlideElement_init
       (NoteElement_call ty6 pos6 sty6 (Some c6)))) =
     (case sty6 of None \<Rightarrow> None | Some s \<Rightarrow> s) \<and>
   \<not> isl (SlideElement_init (ColumnStartElement_call ty7 pos7 sty7 (Some w7))) \<and>
   element_position (projr (SlideElement_init
       (ColumnStartElement_call ty7 pos7 sty7 (Some w7)))) =
     (case pos7 of None \<Rightarrow> None | Some p \<Rightarrow> p) \<and>
   element_style (projr (SlideElement_init
       (ColumnStartElement_call ty7 pos7 sty7 (Some w7)))) =
     (case sty7 of None \<Rightarrow> None | Some s \<Rightarrow> s) \<and>
   \<not> isl (SlideElement_init (ColumnEndElement_call ty8 pos8 sty8)) \<and>
   element_position (projr (SlideElement_init (ColumnEndElement_call ty8 pos8 sty8))) =
     (case pos8 of None \<Rightarrow> None | Some p \<Rightarrow> p) \<and>
   element_style (projr (SlideElement_init (ColumnEndElement_call ty8 pos8 sty8))) =
     (case sty8 of None \<Rightarrow> None | Some s \<Rightarrow> s)"
  by (simp add: with_default_case ColumnEndElement_init_def)

text \<open>
  The same at concrete calls: an image built with a position and without a style holds
  that position and no style; a title built with a style and with \<open>position=None\<close> holds
  that style and no position.
\<close>

theorem position_and_style_optional_witness:
  "element_position (projr (SlideElement_init
       (ImageElement_call None
          (Some (Some \<lparr> left = 1, top = 2, width = 3, height = 4 \<rparr>)) None
          (Some ''img/a.png'') None None None))) =
     Some \<lparr> left = 1, top = 2, width = 3, height = 4 \<rparr> \<and>
   element_style (projr (SlideElement_init
       (ImageElement_call None
          (Some (Some \<lparr> left = 1, top = 2, width = 3, height = 4 \<rparr>)) None
          (Some ''img/a.png'') None None None))) = None \<and>
   element_position (projr (SlideElement_init
       (TitleElement_call None (Some None)
          (Some (Some \<lparr> is_accent = False, is_strong = True, color_rgb = None,
                         hyperlink = None \<rparr>))
          (Some ''Intro'') (Some 1)))) = None \<and>
   element_style (projr (SlideElement_init
       (TitleElement_call None (Some None)
          (Some (Some \<lparr> is_accent = False, is_strong = True, color_rgb = None,
                         hyperlink = None \<rparr>))
          (Some ''Intro'') (Some 1)))) =
     Some \<lparr> is_accent = False, is_strong = True, color_rgb = None, hyperlink = None \<rparr>"
  using position_and_style_optional
    [where ?ty4.0 = None
       and ?pos4.0 = "Some (Some \<lparr> left = 1, top = 2, width = 3, height = 4 \<rparr>)"
       and ?sty4.0 = None and ?p4.0 = "''img/a.png''" and ?w4.0 = None and ?ext4.0 = None
       and ?alt4.0 = None
       and ?ty1.0 = None and ?pos1.0 = "Some None"
       and ?sty1.0 = "Some (Some \<lparr> is_accent = False, is_strong = True, color_rgb = None,
                                     hyperlink = None \<rparr>)"
       and ?c1.0 = "''Intro''" and ?l1.0 = 1]
  by simp

section \<open>Defaults and required fields of ConversionConfig\<close>

text \<open>
  C9: a \<open>ConversionConfig\<close> constructed from the four required fields only has every
  boolean toggle \<open>False\<close>, \<open>min_block_size\<close> 15, \<open>image_width\<close> and \<open>page\<close> \<open>None\<close>, and
  the empty mapping as \<open>custom_titles\<close>.
\<close>

theorem ConversionConfig_defaults:
  "ConversionConfig_init (required_only p out img ttl) =
     Inr \<lparr> pptx_path = p, output_path = out, image_dir = img, title_path = ttl,
           image_width = None, disable_image = False, disable_wmf = False,
           disable_color = False, disable_escaping = False, disable_notes = False,
           enable_slides = False, is_wiki = False, is_mdk = False, is_qmd = False,
           min_block_size = 15, page = None, custom_titles = Map.empty \<rparr>"
  by (simp add: ConversionConfig_init_def required_only_def)

text \<open>
  C10: constructing a \<open>ConversionConfig\<close> fails exactly when one of \<open>pptx_path\<close>,
  \<open>output_path\<close>, \<open>image_dir\<close>, \<open>title_path\<close> is left out, whatever is passed or left out
  for the other fields; \<open>None\<close> passed for \<open>image_dir\<close> and \<open>title_path\<close> is accepted.
\<close>

theorem ConversionConfig_required_fields:
  "isl (ConversionConfig_init kw) =
     (kw_pptx_path kw = None \<or> kw_output_path kw = None \<or> kw_image_dir kw = None \<or>
      kw_title_path kw = None) \<and>
   \<not> isl (ConversionConfig_init (required_only p out None None))"
  by (simp add: ConversionConfig_init_def required_only_def split: option.splits)

end
